theory Spec2Isabelle
  imports Complex_Main "HOL-Library.AList"
begin

section \<open>The isolated document\<close>

text \<open>
  An element of the preview document: its lower-case local name, its attributes in
  the order they were set, its text content and its child elements. An injected
  asset is tagged through \<^verbatim>\<open>dataset.theme\<close>, that is the attribute
  \<^verbatim>\<open>data-theme\<close>.
\<close>

datatype node = Element (tag: string) (attrs: "(string \<times> string) list")
  (textContent: string) (childNodes: "node list")

text \<open>
  The document as the code reaches it: the children of \<^verbatim>\<open>doc.head\<close> and of
  \<^verbatim>\<open>doc.body\<close>, and \<^verbatim>\<open>doc.readyState\<close>.
\<close>

record document =
  head :: "node list"
  body :: "node list"
  readyState :: string

definition hasAttribute :: "string \<Rightarrow> node \<Rightarrow> bool" where
  "hasAttribute a n = (a \<in> fst ` set (attrs n))"

text \<open>The selector \<^verbatim>\<open>link[data-theme], script[data-theme]\<close> on one element.\<close>

definition matches_theme_asset :: "node \<Rightarrow> bool" where
  "matches_theme_asset n =
     ((tag n = ''link'' \<or> tag n = ''script'') \<and> hasAttribute ''data-theme'' n)"

text \<open>
  \<^verbatim>\<open>querySelectorAll\<close> with that selector, below a list of sibling elements, in
  document order (an element before its descendants).
\<close>

fun select_theme_assets :: "node \<Rightarrow> node list" where
  "select_theme_assets (Element t a x cs) =
     (if matches_theme_asset (Element t a x cs) then [Element t a x cs] else [])
     @ concat (map select_theme_assets cs)"

definition querySelectorAll_theme :: "document \<Rightarrow> node list" where
  "querySelectorAll_theme doc =
     concat (map select_theme_assets (head doc)) @ concat (map select_theme_assets (body doc))"

text \<open>
  \<^verbatim>\<open>el.remove()\<close> on every selected element: each one leaves the child list of its
  parent, and what was below it leaves the document with it.
\<close>

fun remove_theme_assets :: "node \<Rightarrow> node" where
  "remove_theme_assets (Element t a x cs) =
     Element t a x (map remove_theme_assets (filter (\<lambda>c. \<not> matches_theme_asset c) cs))"

definition remove_all :: "node list \<Rightarrow> node list" where
  "remove_all ns = map remove_theme_assets (filter (\<lambda>c. \<not> matches_theme_asset c) ns)"

definition cleanOldAssets :: "document \<Rightarrow> document" where
  "cleanOldAssets doc = doc\<lparr>head := remove_all (head doc), body := remove_all (body doc)\<rparr>"


section \<open>Theme configuration and form inputs\<close>

text \<open>
  One entry of \<^verbatim>\<open>extra_options\<close> and one element of a theme. A property that
  may be absent in the configuration object is an \<open>option\<close>; an object is the
  list of its entries in the order \<^verbatim>\<open>Object.entries\<close> yields them.
\<close>

record extra_option =
  opt_type :: "string option"
  opt_css :: "string option"
  opt_js :: "string option"

record element =
  setting :: string
  el_file :: "string option"
  asset_type :: "string option"
  extra_options :: "(string \<times> extra_option) list option"

record theme_data =
  elements :: "(string \<times> element) list option"

text \<open>
  What the code reads of the form control found by \<^verbatim>\<open>getById\<close>. An element that
  is no form control has neither \<^verbatim>\<open>type\<close> nor \<^verbatim>\<open>value\<close>; the empty
  strings stand for that, being falsy and different from \<^verbatim>\<open>'checkbox'\<close> alike.
\<close>

record dom_input =
  input_type :: string
  checked :: bool
  input_value :: string

text \<open>The values found in the global object under an option key.\<close>

datatype jsval = JUndefined | JString string | JNumber real | JBool bool

record assets =
  cssFiles :: "string list"
  jsFiles :: "string list"
  jsOptions :: "(string \<times> jsval) list"

text \<open>Truthiness of an optional string: present and not empty.\<close>

definition truthy :: "string option \<Rightarrow> bool" where
  "truthy s = (case s of None \<Rightarrow> False | Some v \<Rightarrow> v \<noteq> [])"

text \<open>A value inside a template literal.\<close>

definition template_str :: "string option \<Rightarrow> string" where
  "template_str s = (case s of None \<Rightarrow> ''undefined'' | Some v \<Rightarrow> v)"

text \<open>\<^verbatim>\<open>x || d\<close> on an optional string.\<close>

definition or_default :: "string option \<Rightarrow> string \<Rightarrow> string" where
  "or_default s d = (case s of None \<Rightarrow> d | Some v \<Rightarrow> if v = [] then d else v)"

definition previewAsset :: string where
  "previewAsset =
     ''/cgi-bin/koha/plugins/run.pl?class=Koha::Plugin::Celebrations&method=preview_theme_asset''"

definition asset_url :: "string \<Rightarrow> string \<Rightarrow> string option \<Rightarrow> string" where
  "asset_url ty selectedTheme f =
     previewAsset @ ''&type='' @ ty @ ''&theme='' @ selectedTheme @ ''&file='' @ template_str f"

section \<open>Collecting the assets of a theme\<close>

text \<open>\<^verbatim>\<open>input?.type === 'checkbox' ? input.checked : true\<close>\<close>

definition isActive :: "(string \<Rightarrow> dom_input option) \<Rightarrow> element \<Rightarrow> bool" where
  "isActive getById el =
     (case getById (setting el) of
        None \<Rightarrow> True
      | Some input \<Rightarrow> if input_type input = ''checkbox'' then checked input else True)"

text \<open>\<^verbatim>\<open>extraInput?.type === 'checkbox' ? extraInput.checked : !!extraInput?.value\<close>\<close>

definition extraActive :: "(string \<Rightarrow> dom_input option) \<Rightarrow> string \<Rightarrow> bool" where
  "extraActive getById optKey =
     (case getById optKey of
        None \<Rightarrow> False
      | Some extraInput \<Rightarrow>
          if input_type extraInput = ''checkbox'' then checked extraInput
          else input_value extraInput \<noteq> [])"

text \<open>\<^verbatim>\<open>if (v) files.push(v)\<close>\<close>

definition push_truthy :: "string option \<Rightarrow> string list \<Rightarrow> string list" where
  "push_truthy v files = (if truthy v then files @ [template_str v] else files)"

text \<open>\<^verbatim>\<open>if (extraInput?.value) jsOptions[optKey] = extraInput.value\<close>\<close>

definition set_from_input ::
  "dom_input option \<Rightarrow> string \<Rightarrow> (string \<times> jsval) list \<Rightarrow> (string \<times> jsval) list" where
  "set_from_input extraInput optKey opts =
     (case extraInput of
        None \<Rightarrow> opts
      | Some i \<Rightarrow> if input_value i \<noteq> [] then AList.update optKey (JString (input_value i)) opts
                  else opts)"

text \<open>The body of the loop over \<^verbatim>\<open>extra_options\<close>.\<close>

definition collect_extra ::
  "(string \<Rightarrow> dom_input option) \<Rightarrow> (string \<Rightarrow> jsval) \<Rightarrow> string \<times> extra_option \<Rightarrow> assets \<Rightarrow> assets" where
  "collect_extra getById window kv acc =
     (let optKey = fst kv; optValue = snd kv in
      if opt_type optValue = Some ''ignore''
      then acc\<lparr>jsOptions := AList.update optKey (window optKey) (jsOptions acc)\<rparr>
      else if extraActive getById optKey
      then acc\<lparr>cssFiles := push_truthy (opt_css optValue) (cssFiles acc),
               jsFiles := push_truthy (opt_js optValue) (jsFiles acc),
               jsOptions := set_from_input (getById optKey) optKey (jsOptions acc)\<rparr>
      else acc)"

text \<open>The body of the loop over the elements of the theme.\<close>

definition collect_element ::
  "(string \<Rightarrow> dom_input option) \<Rightarrow> (string \<Rightarrow> jsval) \<Rightarrow> string \<Rightarrow> string \<times> element
     \<Rightarrow> assets \<Rightarrow> assets" where
  "collect_element getById window selectedTheme ne acc =
     (let el = snd ne in
      if \<not> isActive getById el \<or> \<not> truthy (el_file el) then acc
      else
        let ty = or_default (asset_type el) ''both'';
            acc1 = (if ty = ''css'' \<or> ty = ''both''
                    then acc\<lparr>cssFiles := cssFiles acc @ [asset_url ''css'' selectedTheme (el_file el)]\<rparr>
                    else acc);
            acc2 = (if ty = ''js'' \<or> ty = ''both''
                    then acc1\<lparr>jsFiles := jsFiles acc1 @ [asset_url ''js'' selectedTheme (el_file el)]\<rparr>
                    else acc1)
        in case extra_options el of
             None \<Rightarrow> acc2
           | Some opts \<Rightarrow> fold (collect_extra getById window) opts acc2)"

definition collectThemeAssets ::
  "(string \<Rightarrow> dom_input option) \<Rightarrow> (string \<Rightarrow> jsval) \<Rightarrow> theme_data \<Rightarrow> string \<Rightarrow> assets" where
  "collectThemeAssets getById window themeData selectedTheme =
     fold (collect_element getById window selectedTheme)
       (case elements themeData of None \<Rightarrow> [] | Some es \<Rightarrow> es)
       \<lparr>cssFiles = [], jsFiles = [], jsOptions = []\<rparr>"

section \<open>What an element contributes\<close>

text \<open>The entries of \<^verbatim>\<open>themeData.elements || {}\<close> and of an element's extra options.\<close>

definition theme_elements :: "theme_data \<Rightarrow> (string \<times> element) list" where
  "theme_elements themeData = (case elements themeData of None \<Rightarrow> [] | Some es \<Rightarrow> es)"

definition extras :: "element \<Rightarrow> (string \<times> extra_option) list" where
  "extras el = (case extra_options el of None \<Rightarrow> [] | Some opts \<Rightarrow> opts)"

text \<open>
  The asset URLs of one extra option: its declared file, when the option is not of
  type \<^verbatim>\<open>ignore\<close> and its input is active.
\<close>

definition extra_assets ::
  "(extra_option \<Rightarrow> string option) \<Rightarrow> (string \<Rightarrow> dom_input option) \<Rightarrow> string \<times> extra_option
     \<Rightarrow> string list" where
  "extra_assets field getById kv =
     (if opt_type (snd kv) \<noteq> Some ''ignore'' \<and> extraActive getById (fst kv) \<and> truthy (field (snd kv))
      then [template_str (field (snd kv))] else [])"

text \<open>
  The asset URLs of one element for the kind \<open>ty\<close> (\<^verbatim>\<open>css\<close> or \<^verbatim>\<open>js\<close>):
  the URL of its own file when its type is \<open>ty\<close> or \<^verbatim>\<open>both\<close>, then those of
  its extra options.
\<close>

definition element_assets ::
  "string \<Rightarrow> (extra_option \<Rightarrow> string option) \<Rightarrow> (string \<Rightarrow> dom_input option) \<Rightarrow> string
     \<Rightarrow> element \<Rightarrow> string list" where
  "element_assets ty field getById selectedTheme el =
     (if or_default (asset_type el) ''both'' = ty \<or> or_default (asset_type el) ''both'' = ''both''
      then [asset_url ty selectedTheme (el_file el)] else [])
     @ concat (map (extra_assets field getById) (extras el))"

text \<open>
  The primary setting as the specification words it: the checked state of a
  checkbox, otherwise the presence of a non-empty value in the input.
\<close>

definition spec_active :: "(string \<Rightarrow> dom_input option) \<Rightarrow> element \<Rightarrow> bool" where
  "spec_active getById el =
     (case getById (setting el) of
        None \<Rightarrow> False
      | Some input \<Rightarrow> if input_type input = ''checkbox'' then checked input
                      else input_value input \<noteq> [])"

text \<open>Every extra option stored under the key \<open>k\<close> in \<open>opts\<close> is of type \<^verbatim>\<open>ignore\<close>.\<close>

definition only_ignore :: "string \<Rightarrow> (string \<times> extra_option) list \<Rightarrow> bool" where
  "only_ignore k opts = (\<forall>kv \<in> set opts. fst kv = k \<longrightarrow> opt_type (snd kv) = Some ''ignore'')"

section \<open>Injecting stylesheets and scripts\<close>

text \<open>
  \<open>injectCSSFiles\<close>: one \<^verbatim>\<open>link\<close> per URL, in the order of the list, each tagged
  with the theme and appended to \<^verbatim>\<open>doc.head\<close>.
\<close>

definition stylesheet_link :: "string \<Rightarrow> string \<Rightarrow> node" where
  "stylesheet_link href selectedTheme =
     Element ''link'' [(''rel'', ''stylesheet''), (''href'', href), (''data-theme'', selectedTheme)] [] []"

definition injectCSSFiles :: "document \<Rightarrow> string list \<Rightarrow> string \<Rightarrow> document" where
  "injectCSSFiles doc css selectedTheme =
     fold (\<lambda>href d. d\<lparr>head := head d @ [stylesheet_link href selectedTheme]\<rparr>) css doc"

text \<open>
  \<open>generateOptionsScript\<close>. \<^verbatim>\<open>JSON.stringify\<close> belongs to the platform and is a
  parameter.
\<close>

definition generateOptionsScript ::
  "((string \<times> jsval) list \<Rightarrow> string) \<Rightarrow> string \<Rightarrow> (string \<times> jsval) list \<Rightarrow> string" where
  "generateOptionsScript stringify selectedTheme opts =
     (if length (map fst opts) = 0 then []
      else ''window['' @ [CHR 0x22] @ selectedTheme @ ''ThemeOptions'' @ [CHR 0x22] @ ''] = ''
           @ stringify opts @ '';'')"

text \<open>An inline script element as both branches of the code build it.\<close>

definition inline_script :: "string \<Rightarrow> string \<Rightarrow> node" where
  "inline_script code selectedTheme =
     Element ''script'' [(''type'', ''text/javascript''), (''data-theme'', selectedTheme)] code []"

text \<open>
  What a run does, in the order it does it: a child appended to \<^verbatim>\<open>doc.body\<close>,
  an event dispatched on the document, an error written to the console.
\<close>

datatype effect = AppendChild node | DispatchEvent string | ConsoleError string

record injection =
  inj_doc :: document
  inj_trace :: "effect list"

definition appendChild_body :: "node \<Rightarrow> injection \<Rightarrow> injection" where
  "appendChild_body n st =
     st\<lparr>inj_doc := (inj_doc st)\<lparr>body := body (inj_doc st) @ [n]\<rparr>,
         inj_trace := inj_trace st @ [AppendChild n]\<rparr>"

definition dispatchEvent :: "string \<Rightarrow> injection \<Rightarrow> injection" where
  "dispatchEvent ev st = st\<lparr>inj_trace := inj_trace st @ [DispatchEvent ev]\<rparr>"

definition console_error :: "string \<Rightarrow> injection \<Rightarrow> injection" where
  "console_error err st = st\<lparr>inj_trace := inj_trace st @ [ConsoleError err]\<rparr>"

text \<open>
  How \<^verbatim>\<open>fetch(src).then(res => res.text())\<close> settles: with the text of the
  response, or rejected with an error.
\<close>

datatype fetch_outcome = Fetched string | Failed string

datatype promise = Pending | Fulfilled | Rejected

text \<open>
  The synchronous part of \<open>injectJSFilesAsync\<close>: the options script, when its text is
  not empty.
\<close>

definition inject_options ::
  "((string \<times> jsval) list \<Rightarrow> string) \<Rightarrow> document \<Rightarrow> string \<Rightarrow> (string \<times> jsval) list \<Rightarrow> injection" where
  "inject_options stringify doc selectedTheme opts =
     (let optionsScript = generateOptionsScript stringify selectedTheme opts;
          st = \<lparr>inj_doc = doc, inj_trace = []\<rparr>
      in if optionsScript \<noteq> [] then appendChild_body (inline_script optionsScript selectedTheme) st
         else st)"

text \<open>\<^verbatim>\<open>[...new Set(jsFiles)]\<close>: the first occurrence of every URL, in list order.\<close>

fun uniqueJs :: "string list \<Rightarrow> string list" where
  "uniqueJs [] = []"
| "uniqueJs (x # xs) = x # uniqueJs (filter (\<lambda>y. y \<noteq> x) xs)"

text \<open>
  The handlers of one load promise, run when the fetch of \<open>src\<close> has settled: the
  \<^verbatim>\<open>then\<close> handler appends the inline script and, when the document is
  \<^verbatim>\<open>complete\<close> or \<^verbatim>\<open>interactive\<close>, dispatches \<^verbatim>\<open>DOMContentLoaded\<close>;
  the \<^verbatim>\<open>catch\<close> handler logs the error. Either way the promise that
  \<^verbatim>\<open>catch\<close> returns is fulfilled.
\<close>

definition load_script ::
  "(string \<Rightarrow> fetch_outcome) \<Rightarrow> string \<Rightarrow> string \<Rightarrow> injection \<Rightarrow> injection" where
  "load_script fetch selectedTheme src st =
     (case fetch src of
        Fetched code \<Rightarrow>
          (let st1 = appendChild_body (inline_script code selectedTheme) st
           in if readyState (inj_doc st1) = ''complete'' \<or> readyState (inj_doc st1) = ''interactive''
              then dispatchEvent ''DOMContentLoaded'' st1 else st1)
      | Failed err \<Rightarrow> console_error err st)"

definition load_promise :: "(string \<Rightarrow> fetch_outcome) \<Rightarrow> string \<Rightarrow> promise" where
  "load_promise fetch src = (case fetch src of Fetched code \<Rightarrow> Fulfilled | Failed err \<Rightarrow> Fulfilled)"

text \<open>\<^verbatim>\<open>Promise.all\<close> over promises that have all settled.\<close>

definition promise_all :: "promise list \<Rightarrow> promise" where
  "promise_all ps =
     (if Rejected \<in> set ps then Rejected else if Pending \<in> set ps then Pending else Fulfilled)"

text \<open>
  \<open>injectJSFilesAsync\<close>. The fetches are all started at once; \<open>order\<close> lists the
  URLs in the order in which their fetches settle, and the handlers run in that
  order. A URL that is not being fetched, or has settled already, is passed over; a
  fetch that \<open>order\<close> never names leaves its promise, and the whole call, pending.
\<close>

definition injectJSFilesAsync ::
  "((string \<times> jsval) list \<Rightarrow> string) \<Rightarrow> (string \<Rightarrow> fetch_outcome) \<Rightarrow> string list
     \<Rightarrow> document \<Rightarrow> string list \<Rightarrow> string \<Rightarrow> (string \<times> jsval) list \<Rightarrow> promise \<times> injection" where
  "injectJSFilesAsync stringify fetch order doc js selectedTheme opts =
     (let st = inject_options stringify doc selectedTheme opts;
          uniqueJsFiles = uniqueJs js;
          settled = filter (\<lambda>src. src \<in> set uniqueJsFiles) (uniqueJs order);
          loadPromises = map (\<lambda>src. if src \<in> set settled then load_promise fetch src else Pending)
                           uniqueJsFiles
      in (promise_all loadPromises, fold (load_script fetch selectedTheme) settled st))"

text \<open>The scripts appended to the body, the events and the errors of a trace.\<close>

definition appended :: "effect list \<Rightarrow> node list" where
  "appended t = concat (map (\<lambda>e. case e of AppendChild n \<Rightarrow> [n] | _ \<Rightarrow> []) t)"

definition logged :: "effect list \<Rightarrow> string list" where
  "logged t = concat (map (\<lambda>e. case e of ConsoleError err \<Rightarrow> [err] | _ \<Rightarrow> []) t)"

text \<open>No child is appended once an event has been dispatched.\<close>

fun no_append_after_dispatch :: "effect list \<Rightarrow> bool" where
  "no_append_after_dispatch [] = True"
| "no_append_after_dispatch (DispatchEvent ev # t) = (appended t = [])"
| "no_append_after_dispatch (e # t) = no_append_after_dispatch t"

text \<open>Every append is followed at once by the dispatch of \<^verbatim>\<open>DOMContentLoaded\<close>.\<close>

fun signalled_after_each_append :: "effect list \<Rightarrow> bool" where
  "signalled_after_each_append [] = True"
| "signalled_after_each_append (AppendChild n # DispatchEvent ev # t) =
     (ev = ''DOMContentLoaded'' \<and> signalled_after_each_append t)"
| "signalled_after_each_append (AppendChild n # t) = False"
| "signalled_after_each_append (e # t) = signalled_after_each_append t"

text \<open>The text of the scripts fetched, and the errors of the fetches that failed.\<close>

definition fetched_code :: "(string \<Rightarrow> fetch_outcome) \<Rightarrow> string list \<Rightarrow> string list" where
  "fetched_code fetch srcs =
     concat (map (\<lambda>src. case fetch src of Fetched code \<Rightarrow> [code] | Failed err \<Rightarrow> []) srcs)"

definition fetch_errors :: "(string \<Rightarrow> fetch_outcome) \<Rightarrow> string list \<Rightarrow> string list" where
  "fetch_errors fetch srcs =
     concat (map (\<lambda>src. case fetch src of Fetched code \<Rightarrow> [] | Failed err \<Rightarrow> [err]) srcs)"

text \<open>What the handlers of one load promise do when the document is ready.\<close>

definition script_effects :: "(string \<Rightarrow> fetch_outcome) \<Rightarrow> string \<Rightarrow> string \<Rightarrow> effect list" where
  "script_effects f th src =
     (case f src of
        Fetched code \<Rightarrow> [AppendChild (inline_script code th), DispatchEvent ''DOMContentLoaded'']
      | Failed err \<Rightarrow> [ConsoleError err])"

section \<open>Devices and layout\<close>

record device_config =
  baseWidth :: real
  container :: string
  screen :: string

definition DEVICE_CONFIG :: "string \<Rightarrow> device_config option" where
  "DEVICE_CONFIG key =
     (if key = ''ordi''
      then Some \<lparr>baseWidth = 1300, container = ''.monitor-preview'', screen = ''.screenOrdi .content''\<rparr>
      else if key = ''tel''
      then Some \<lparr>baseWidth = 500, container = ''.iphone'', screen = ''.iphone .screenMobile''\<rparr>
      else if key = ''tablet''
      then Some \<lparr>baseWidth = 800, container = ''.ipad'', screen = ''.ipad .screenMobile''\<rparr>
      else None)"

text \<open>The keys in the order of \<^verbatim>\<open>Object.values(DEVICE_CONFIG)\<close>.\<close>

definition DEVICE_KEYS :: "string list" where
  "DEVICE_KEYS = [''ordi'', ''tel'', ''tablet'']"

definition opacPreview :: string where
  "opacPreview = ''/cgi-bin/koha/plugins/run.pl?class=Koha::Plugin::Celebrations&method=opac_preview''"

text \<open>
  Numbers are real numbers here; the rounding of floating-point arithmetic is left
  out. A length written \<^verbatim>\<open>${x}px\<close> holds a number, or the text of a division by
  zero (\<^verbatim>\<open>NaN\<close>, \<^verbatim>\<open>Infinity\<close>).
\<close>

datatype length = Px real | NonFinite

definition div_px :: "real \<Rightarrow> real \<Rightarrow> length" where
  "div_px a b = (if b = 0 then NonFinite else Px (a / b))"

text \<open>\<^verbatim>\<open>translate(${left}px, ${top}px) scale(${scale})\<close>\<close>

datatype transform = Transform (translate_x: real) (translate_y: real) (scale_factor: real)

text \<open>The style properties the code assigns; an empty text or \<open>None\<close> is a property never set.\<close>

record style =
  display :: string
  opacity :: string
  pointerEvents :: string
  style_transform :: "transform option"
  style_width :: "length option"
  style_height :: "length option"

definition no_style :: style where
  "no_style = \<lparr>display = [], opacity = [], pointerEvents = [], style_transform = None,
     style_width = None, style_height = None\<rparr>"

record rect =
  rect_left :: real
  rect_top :: real
  rect_width :: real
  rect_height :: real

record frame =
  frame_src :: string
  frame_style :: style

record button =
  disabled :: bool
  cursor :: string

text \<open>
  The state of the preview module and the part of the admin page it touches: the
  module variables, the overlay element (absent until created), the buttons, and what
  \<^verbatim>\<open>document.querySelector\<close> finds for a device container (its style) and for a
  screen region (its bounding rectangle).
\<close>

record page =
  iframe :: "frame option"
  iframeContainer :: "style option"
  currentDevice :: string
  isInitialized :: bool
  initialPreviewDone :: bool
  overlay :: "style option"
  preview_button :: "button option"
  create_button :: "button option"
  device_containers :: "string \<Rightarrow> style option"
  screen_rects :: "string \<Rightarrow> rect option"

definition createFixedIframeContainer :: "page \<Rightarrow> page" where
  "createFixedIframeContainer p =
     (case iframeContainer p of
        Some c \<Rightarrow> p
      | None \<Rightarrow> p\<lparr>iframeContainer := Some no_style\<rparr>)"

text \<open>
  \<open>createIframe\<close>: the frame is created once, with the load listener
  \<open>createIframe_onload\<close> (defined after the overlay functions).
\<close>

definition createIframe :: "page \<Rightarrow> page" where
  "createIframe p =
     (case iframe p of
        Some f \<Rightarrow> p
      | None \<Rightarrow> (createFixedIframeContainer p)\<lparr>iframe := Some \<lparr>frame_src = opacPreview, frame_style = no_style\<rparr>\<rparr>)"

definition createLoadingOverlay :: "page \<Rightarrow> page" where
  "createLoadingOverlay p = (createFixedIframeContainer p)\<lparr>overlay := Some no_style\<rparr>"

text \<open>
  \<open>showLoadingOverlay\<close>, up to its return; the opacity is set by the animation-frame
  callback \<open>showLoadingOverlay_frame\<close>.
\<close>

definition showLoadingOverlay :: "page \<Rightarrow> page" where
  "showLoadingOverlay p =
     (let p1 = (case overlay p of None \<Rightarrow> createLoadingOverlay p | Some ov \<Rightarrow> p)
      in p1\<lparr>overlay := map_option (\<lambda>ov. ov\<lparr>display := ''flex''\<rparr>) (overlay p1)\<rparr>)"

definition showLoadingOverlay_frame :: "page \<Rightarrow> page" where
  "showLoadingOverlay_frame p = p\<lparr>overlay := map_option (\<lambda>ov. ov\<lparr>opacity := ''1''\<rparr>) (overlay p)\<rparr>"

text \<open>\<open>hideLoadingOverlay\<close>, once its timer of 2500 ms has run out.\<close>

definition hideLoadingOverlay :: "page \<Rightarrow> page" where
  "hideLoadingOverlay p =
     (case overlay p of
        None \<Rightarrow> p
      | Some ov \<Rightarrow> p\<lparr>overlay := Some (ov\<lparr>display := ''none'', pointerEvents := ''none''\<rparr>)\<rparr>)"

text \<open>
  The load listener of the frame: overlay shown, module initialised, overlay hidden
  when its timer has run out. On the first load it also schedules
  \<open>switchToDevice\<close> for the current device, two animation frames later.
\<close>

definition createIframe_onload :: "page \<Rightarrow> page" where
  "createIframe_onload p =
     hideLoadingOverlay ((showLoadingOverlay p)\<lparr>isInitialized := True, initialPreviewDone := True\<rparr>)"

text \<open>
  \<open>positionIframe\<close>. The container exists whenever the frame does, both being made
  by \<open>createIframe\<close>.
\<close>

text \<open>
  Assigning \<^verbatim>\<open>${x}px\<close> to a length property of a style: a number is stored;
  \<^verbatim>\<open>NaNpx\<close> and \<^verbatim>\<open>Infinitypx\<close> are no lengths, the assignment is dropped and the
  property keeps what it held.
\<close>

definition assign_length :: "length \<Rightarrow> length option \<Rightarrow> length option" where
  "assign_length v held = (case v of Px x \<Rightarrow> Some (Px x) | NonFinite \<Rightarrow> held)"

text \<open>
  The three assignments that \<open>positionIframe\<close> makes to the style of the frame and
  to the style of the overlay. The width and the height of a bounding rectangle are
  never negative.
\<close>

definition place :: "rect \<Rightarrow> device_config \<Rightarrow> style \<Rightarrow> style" where
  "place r config st =
     (let scale = rect_width r / baseWidth config
      in st\<lparr>style_transform := Some (Transform (rect_left r) (rect_top r) scale),
            style_width := Some (Px (baseWidth config)),
            style_height := assign_length (div_px (rect_height r) scale) (style_height st)\<rparr>)"

definition positionIframe :: "page \<Rightarrow> page" where
  "positionIframe p =
     (case overlay p of
        None \<Rightarrow> p
      | Some ov \<Rightarrow>
          (case iframe p of
             None \<Rightarrow> p
           | Some f \<Rightarrow>
               if \<not> isInitialized p then p
               else
                 (case DEVICE_CONFIG (currentDevice p) of
                    None \<Rightarrow> p
                  | Some config \<Rightarrow>
                      (case screen_rects p (screen config) of
                         None \<Rightarrow> p
                       | Some r \<Rightarrow>
                           p\<lparr>iframeContainer :=
                                 map_option (\<lambda>c. c\<lparr>display := ''block''\<rparr>) (iframeContainer p),
                             iframe := Some (f\<lparr>frame_style := place r config (frame_style f)\<rparr>),
                             overlay := Some (place r config ov)\<rparr>))))"

text \<open>
  \<open>switchToDevice\<close>, up to its return: every device container found is hidden, the
  one of the chosen device is shown; without a frame one is created, otherwise the
  overlay is shown and the frame reloaded (its source cleared and restored), with
  \<open>switchToDevice_onload\<close> to run when it has loaded.
\<close>

definition set_display :: "string \<Rightarrow> string \<Rightarrow> (string \<Rightarrow> style option) \<Rightarrow> string \<Rightarrow> style option" where
  "set_display selector value els =
     (\<lambda>s. if s = selector then map_option (\<lambda>st. st\<lparr>display := value\<rparr>) (els s) else els s)"

definition hide_devices :: "(string \<Rightarrow> style option) \<Rightarrow> string \<Rightarrow> style option" where
  "hide_devices els =
     fold (\<lambda>key e. case DEVICE_CONFIG key of None \<Rightarrow> e
                    | Some config \<Rightarrow> set_display (container config) ''none'' e)
       DEVICE_KEYS els"

definition switchToDevice :: "string \<Rightarrow> page \<Rightarrow> page" where
  "switchToDevice deviceKey p =
     (case DEVICE_CONFIG deviceKey of
        None \<Rightarrow> p
      | Some config \<Rightarrow>
          (let p1 = p\<lparr>currentDevice := deviceKey\<rparr>;
               p2 = p1\<lparr>device_containers :=
                         set_display (container config) ''block'' (hide_devices (device_containers p1))\<rparr>
           in case iframe p2 of
                None \<Rightarrow> createIframe p2
              | Some f \<Rightarrow> showLoadingOverlay p2))"

text \<open>
  The handler that \<open>switchToDevice\<close> installs, run when the frame has loaded. The
  script of \<open>injectDisableInteractions\<close> goes into the frame's document and leaves the
  page as it is.
\<close>

definition switchToDevice_onload :: "page \<Rightarrow> page" where
  "switchToDevice_onload p = hideLoadingOverlay (positionIframe (p\<lparr>isInitialized := True\<rparr>))"

text \<open>The scale, the width and the height that the preview frame carries.\<close>

definition preview_layout :: "page \<Rightarrow> (real option \<times> length option \<times> length option) option" where
  "preview_layout p =
     map_option (\<lambda>f. (map_option scale_factor (style_transform (frame_style f)),
                       style_width (frame_style f), style_height (frame_style f)))
       (iframe p)"

section \<open>Refreshing the preview\<close>

definition toggleButton :: "bool \<Rightarrow> button \<Rightarrow> button" where
  "toggleButton d btn = btn\<lparr>disabled := d, cursor := (if d then ''not-allowed'' else ''pointer'')\<rparr>"

text \<open>\<^verbatim>\<open>toggleButtons([previewBtn, createBtn], d)\<close>\<close>

definition toggleButtons :: "bool \<Rightarrow> page \<Rightarrow> page" where
  "toggleButtons d p =
     p\<lparr>preview_button := map_option (toggleButton d) (preview_button p),
       create_button := map_option (toggleButton d) (create_button p)\<rparr>"

text \<open>
  What \<^verbatim>\<open>iframe.contentDocument || iframe.contentWindow.document\<close> comes to: a
  document, \<^verbatim>\<open>null\<close>, or an exception (no window, or a window of another origin).
\<close>

datatype document_access = Accessible document | NullDocument | AccessThrows string

text \<open>
  The element found under the id \<^verbatim>\<open>theme-preview\<close>: whether its load event fires
  after the source is reassigned, and what reading its document gives then.
\<close>

record surface =
  load_fires :: bool
  content :: document_access

text \<open>How a call of an asynchronous function ends.\<close>

datatype completion = Returned | Threw string | NeverSettles

text \<open>What the environment supplies to a refresh.\<close>

record environment =
  env_getById :: "string \<Rightarrow> dom_input option"
  env_window :: "string \<Rightarrow> jsval"
  env_stringify :: "(string \<times> jsval) list \<Rightarrow> string"
  env_fetch :: "string \<Rightarrow> fetch_outcome"
  settle_order :: "string list"
  theme_preview :: "surface option"

text \<open>
  \<open>updatePreview\<close>: how the call ends, the page, and the preview document when it was
  reached.
\<close>

definition updatePreview ::
  "environment \<Rightarrow> (string \<Rightarrow> theme_data option) \<Rightarrow> string \<Rightarrow> page
     \<Rightarrow> completion \<times> page \<times> document option" where
  "updatePreview env rawThemes themeName p =
     (let p1 = showLoadingOverlay p;
          p2 = toggleButtons True p1
      in case theme_preview env of
           None \<Rightarrow> (Returned, p2, None)
         | Some fr \<Rightarrow>
             (case rawThemes themeName of
                None \<Rightarrow> (Returned, hideLoadingOverlay p2, None)
              | Some themeData \<Rightarrow>
                  if \<not> load_fires fr then (NeverSettles, p2, None)
                  else
                    (case content fr of
                       AccessThrows err \<Rightarrow> (Threw err, p2, None)
                     | NullDocument \<Rightarrow> (Returned, hideLoadingOverlay p2, None)
                     | Accessible doc \<Rightarrow>
                         (let doc1 = cleanOldAssets doc;
                              a = collectThemeAssets (env_getById env) (env_window env) themeData themeName;
                              doc2 = injectCSSFiles doc1 (cssFiles a) themeName;
                              r = injectJSFilesAsync (env_stringify env) (env_fetch env) (settle_order env)
                                    doc2 (jsFiles a) themeName (jsOptions a)
                          in case fst r of
                               Fulfilled \<Rightarrow>
                                 (Returned, toggleButtons False (hideLoadingOverlay p2),
                                  Some (inj_doc (snd r)))
                             | Rejected \<Rightarrow> (Threw ''rejected'', p2, Some (inj_doc (snd r)))
                             | Pending \<Rightarrow> (NeverSettles, p2, Some (inj_doc (snd r)))))))"

section \<open>Concrete inputs\<close>

text \<open>A preview document that holds a script and a stylesheet link of its own, neither tagged.\<close>

definition plain_doc :: document where
  "plain_doc = \<lparr>head = [Element ''title'' [] ''OPAC'' []],
     body = [Element ''div'' [(''id'', ''main'')] []
               [Element ''script'' [] ''init()'' [], Element ''link'' [(''rel'', ''stylesheet'')] [] []]],
     readyState = ''complete''\<rparr>"

text \<open>
  A theme with one element: a stylesheet switched by the input \<^verbatim>\<open>toggle_snow\<close>, with
  an extra option \<^verbatim>\<open>snow_density\<close> of type \<^verbatim>\<open>ignore\<close>.
\<close>

definition snow :: element where
  "snow = \<lparr>setting = ''toggle_snow'', el_file = Some ''snow.css'', asset_type = Some ''css'',
     extra_options = Some [(''snow_density'',
       \<lparr>opt_type = Some ''ignore'', opt_css = None, opt_js = None\<rparr>)]\<rparr>"

definition winter :: theme_data where
  "winter = \<lparr>elements = Some [(''snow'', snow)]\<rparr>"

definition no_inputs :: "string \<Rightarrow> dom_input option" where
  "no_inputs = (\<lambda>i. None)"

definition empty_text_input :: "string \<Rightarrow> dom_input option" where
  "empty_text_input =
     (\<lambda>i. if i = ''toggle_snow''
          then Some \<lparr>input_type = ''text'', checked = False, input_value = []\<rparr> else None)"

definition unchecked_box :: "string \<Rightarrow> dom_input option" where
  "unchecked_box =
     (\<lambda>i. if i = ''toggle_snow''
          then Some \<lparr>input_type = ''checkbox'', checked = False, input_value = ''on''\<rparr> else None)"

definition checked_box :: "string \<Rightarrow> dom_input option" where
  "checked_box =
     (\<lambda>i. if i = ''toggle_snow''
          then Some \<lparr>input_type = ''checkbox'', checked = True, input_value = ''on''\<rparr> else None)"

definition globals :: "string \<Rightarrow> jsval" where
  "globals = (\<lambda>k. if k = ''snow_density'' then JNumber 40 else JUndefined)"

text \<open>An empty, loaded preview document, and fetches of two scripts.\<close>

definition loaded_doc :: document where
  "loaded_doc = \<lparr>head = [], body = [], readyState = ''complete''\<rparr>"

definition no_stringify :: "(string \<times> jsval) list \<Rightarrow> string" where
  "no_stringify opts = ''{}''"

definition both_fetched :: "string \<Rightarrow> fetch_outcome" where
  "both_fetched src = (if src = ''a.js'' then Fetched ''var a = 1;'' else Fetched ''a + 1;'')"

definition a_fails :: "string \<Rightarrow> fetch_outcome" where
  "a_fails src = (if src = ''a.js'' then Failed ''TypeError: Failed to fetch'' else Fetched ''a + 1;'')"

text \<open>
  The admin page with the desktop device selected, the frame loaded and the overlay
  hidden; the screen region of the phone is 325 px wide and 650 px high.
\<close>

definition admin_page :: page where
  "admin_page =
     \<lparr>iframe = Some \<lparr>frame_src = opacPreview, frame_style = no_style\<rparr>,
      iframeContainer = Some no_style,
      currentDevice = ''ordi'',
      isInitialized = True,
      initialPreviewDone = True,
      overlay = Some (no_style\<lparr>display := ''none'', pointerEvents := ''none''\<rparr>),
      preview_button = Some \<lparr>disabled = False, cursor = ''pointer''\<rparr>,
      create_button = Some \<lparr>disabled = False, cursor = ''pointer''\<rparr>,
      device_containers = (\<lambda>s. if s = ''.monitor-preview'' \<or> s = ''.iphone'' \<or> s = ''.ipad''
                               then Some no_style else None),
      screen_rects = (\<lambda>s. if s = ''.iphone .screenMobile''
                          then Some \<lparr>rect_left = 40, rect_top = 120, rect_width = 325, rect_height = 650\<rparr>
                          else None)\<rparr>"

text \<open>A refresh asked for while no element has the id \<^verbatim>\<open>theme-preview\<close>.\<close>

definition no_surface :: environment where
  "no_surface = \<lparr>env_getById = no_inputs, env_window = globals, env_stringify = no_stringify,
     env_fetch = both_fetched, settle_order = [], theme_preview = None\<rparr>"

definition raw_themes :: "string \<Rightarrow> theme_data option" where
  "raw_themes name = (if name = ''winter'' then Some winter else None)"

text \<open>
  The page with the phone selected while its screen region is not rendered (a
  rectangle of zeros), the frame and the overlay still carrying the height \<open>h\<close> of
  an earlier layout.
\<close>

definition collapsed_page :: "real \<Rightarrow> page" where
  "collapsed_page h =
     admin_page\<lparr>currentDevice := ''tel'',
       iframe := Some \<lparr>frame_src = opacPreview,
         frame_style = no_style\<lparr>style_width := Some (Px 500), style_height := Some (Px h)\<rparr>\<rparr>,
       overlay := Some (no_style\<lparr>display := ''none'', pointerEvents := ''none'',
         style_width := Some (Px 500), style_height := Some (Px h)\<rparr>),
       screen_rects := (\<lambda>s. if s = ''.iphone .screenMobile''
                           then Some \<lparr>rect_left = 0, rect_top = 0, rect_width = 0, rect_height = 0\<rparr>
                           else None)\<rparr>"

text \<open>
  A theme with a second element whose extra option, of type \<^verbatim>\<open>normal\<close>, has the key
  of the first element's option of type \<^verbatim>\<open>ignore\<close>; and a page where the input of
  that key holds the value 7 and the two toggles are absent.
\<close>

definition wind :: element where
  "wind = \<lparr>setting = ''toggle_wind'', el_file = Some ''wind.js'', asset_type = Some ''js'',
     extra_options = Some [(''snow_density'',
       \<lparr>opt_type = Some ''normal'', opt_css = None, opt_js = None\<rparr>)]\<rparr>"

definition stormy :: theme_data where
  "stormy = \<lparr>elements = Some [(''snow'', snow), (''wind'', wind)]\<rparr>"

definition density_input :: "string \<Rightarrow> dom_input option" where
  "density_input =
     (\<lambda>i. if i = ''snow_density''
          then Some \<lparr>input_type = ''range'', checked = False, input_value = ''7''\<rparr> else None)"

text \<open>An element that declares no file, with an extra option of type \<^verbatim>\<open>ignore\<close>.\<close>

definition fileless :: element where
  "fileless = \<lparr>setting = ''toggle_snow'', el_file = None, asset_type = Some ''js'',
     extra_options = Some [(''snow_density'',
       \<lparr>opt_type = Some ''ignore'', opt_css = None, opt_js = None\<rparr>)]\<rparr>"

section \<open>Removing stale assets\<close>

lemma matches_remove_theme_assets [simp]:
  "matches_theme_asset (remove_theme_assets n) = matches_theme_asset n"
  by (cases n) (simp add: matches_theme_asset_def hasAttribute_def)

lemma select_remove_Nil:
  "\<not> matches_theme_asset n \<Longrightarrow> select_theme_assets (remove_theme_assets n) = []"
proof (induction n)
  case (Element t a x cs)
  have "select_theme_assets (remove_theme_assets c) = []"
    if "c \<in> set cs" "\<not> matches_theme_asset c" for c
    using Element.IH that by simp
  moreover have "\<not> matches_theme_asset (Element t a x ys)" for ys
    using Element.prems by (simp add: matches_theme_asset_def hasAttribute_def)
  ultimately show ?case by simp
qed

lemma select_remove_all: "concat (map select_theme_assets (remove_all ns)) = []"
  by (simp add: remove_all_def select_remove_Nil)

lemma remove_theme_assets_id:
  "select_theme_assets n = [] \<Longrightarrow> remove_theme_assets n = n"
proof (induction n)
  case (Element t a x cs)
  from Element.prems have sub: "\<forall>c\<in>set cs. select_theme_assets c = []"
    by (auto split: if_splits)
  have "\<not> matches_theme_asset c" if "c \<in> set cs" for c
    using sub that by (cases c) (auto split: if_splits)
  then have "filter (\<lambda>c. \<not> matches_theme_asset c) cs = cs" by simp
  moreover have "map remove_theme_assets cs = cs"
    using Element.IH sub by (simp add: map_idI)
  ultimately show ?case by simp
qed

lemma remove_all_id:
  assumes "concat (map select_theme_assets ns) = []"
  shows "remove_all ns = ns"
proof -
  from assms have sub: "\<forall>c\<in>set ns. select_theme_assets c = []" by simp
  have "\<not> matches_theme_asset c" if "c \<in> set ns" for c
    using sub that by (cases c) (auto split: if_splits)
  then have "filter (\<lambda>c. \<not> matches_theme_asset c) ns = ns" by simp
  moreover have "map remove_theme_assets ns = ns"
    using sub by (simp add: map_idI remove_theme_assets_id)
  ultimately show ?thesis by (simp add: remove_all_def)
qed

text \<open>
  C2. After \<open>cleanOldAssets doc\<close> the selector finds no tagged stylesheet or script
  anywhere in the document, whatever the document held before; a document without
  a tagged element comes back unchanged; cleaning twice gives what cleaning once gives.
\<close>

theorem cleanOldAssets_leaves_no_theme_asset:
  "querySelectorAll_theme (cleanOldAssets doc) = []
   \<and> (querySelectorAll_theme doc = [] \<longrightarrow> cleanOldAssets doc = doc)
   \<and> cleanOldAssets (cleanOldAssets doc) = cleanOldAssets doc"
proof (intro conjI impI)
  show "querySelectorAll_theme (cleanOldAssets doc) = []"
    by (simp add: querySelectorAll_theme_def cleanOldAssets_def select_remove_all)
  show "cleanOldAssets doc = doc" if "querySelectorAll_theme doc = []"
    using that by (simp add: querySelectorAll_theme_def cleanOldAssets_def remove_all_id)
  have "remove_all (remove_all ns) = remove_all ns" for ns
    by (rule remove_all_id) (rule select_remove_all)
  then show "cleanOldAssets (cleanOldAssets doc) = cleanOldAssets doc"
    by (simp add: cleanOldAssets_def)
qed

theorem cleanOldAssets_leaves_no_theme_asset_witness:
  "querySelectorAll_theme plain_doc = [] \<and> cleanOldAssets plain_doc = plain_doc"
  using cleanOldAssets_leaves_no_theme_asset [of plain_doc]
  by (simp add: plain_doc_def querySelectorAll_theme_def matches_theme_asset_def hasAttribute_def)

section \<open>Asset collection\<close>

subsection \<open>Folding over a list\<close>

lemma fold_preserves:
  assumes "\<And>y a. y \<in> set xs \<Longrightarrow> Q a \<Longrightarrow> Q (f y a)" "Q a"
  shows "Q (fold f xs a)"
  using assms by (induction xs arbitrary: a) simp_all

lemma fold_establishes:
  assumes "x \<in> set xs" "\<And>a. Q (f x a)" "\<And>y a. y \<in> set xs \<Longrightarrow> Q a \<Longrightarrow> Q (f y a)"
  shows "Q (fold f xs a)"
  using assms
proof (induction xs arbitrary: a)
  case Nil then show ?case by simp
next
  case (Cons z zs)
  show ?case
  proof (cases "x = z")
    case True
    have "Q (f z a)" using Cons.prems(2) True by simp
    then have "Q (fold f zs (f z a))"
      by (rule fold_preserves [rotated]) (simp add: Cons.prems(3))
    then show ?thesis by simp
  next
    case False
    then have "x \<in> set zs" using Cons.prems(1) by simp
    then have "Q (fold f zs (f z a))"
      by (rule Cons.IH) (simp_all add: Cons.prems)
    then show ?thesis by simp
  qed
qed

subsection \<open>The collected URLs\<close>

lemma fold_collect_extra_css:
  "cssFiles (fold (collect_extra g w) opts acc)
     = cssFiles acc @ concat (map (extra_assets opt_css g) opts)"
  by (induction opts arbitrary: acc)
     (simp_all add: collect_extra_def extra_assets_def push_truthy_def Let_def)

lemma fold_collect_extra_js:
  "jsFiles (fold (collect_extra g w) opts acc)
     = jsFiles acc @ concat (map (extra_assets opt_js g) opts)"
  by (induction opts arbitrary: acc)
     (simp_all add: collect_extra_def extra_assets_def push_truthy_def Let_def)

lemma collect_element_css:
  "cssFiles (collect_element g w th ne acc)
     = cssFiles acc @ (if truthy (el_file (snd ne)) \<and> isActive g (snd ne)
                       then element_assets ''css'' opt_css g th (snd ne) else [])"
  by (simp add: collect_element_def element_assets_def extras_def Let_def
        fold_collect_extra_css split: option.splits)

lemma collect_element_js:
  "jsFiles (collect_element g w th ne acc)
     = jsFiles acc @ (if truthy (el_file (snd ne)) \<and> isActive g (snd ne)
                       then element_assets ''js'' opt_js g th (snd ne) else [])"
  by (simp add: collect_element_def element_assets_def extras_def Let_def
        fold_collect_extra_js split: option.splits)

lemma fold_collect_element_css:
  "cssFiles (fold (collect_element g w th) es acc)
     = cssFiles acc @ concat (map (\<lambda>ne. if truthy (el_file (snd ne)) \<and> isActive g (snd ne)
                       then element_assets ''css'' opt_css g th (snd ne) else []) es)"
  by (induction es arbitrary: acc) (simp_all add: collect_element_css)

lemma fold_collect_element_js:
  "jsFiles (fold (collect_element g w th) es acc)
     = jsFiles acc @ concat (map (\<lambda>ne. if truthy (el_file (snd ne)) \<and> isActive g (snd ne)
                       then element_assets ''js'' opt_js g th (snd ne) else []) es)"
  by (induction es arbitrary: acc) (simp_all add: collect_element_js)

lemma isActive_iff:
  "isActive g el \<longleftrightarrow> (\<forall>i. g (setting el) = Some i \<longrightarrow> input_type i = ''checkbox'' \<longrightarrow> checked i)"
  by (simp add: isActive_def split: option.splits)

text \<open>
  C4, as the specification states it, fails: an element whose primary input is a text
  input with an empty value still contributes its stylesheet, although such an input
  is not active in the specification's sense.
\<close>

theorem collectThemeAssets_empty_value_counterexample: "\<not> (asset_url ''css'' ''winter'' (Some ''snow.css'')
          \<in> set (cssFiles (collectThemeAssets empty_text_input globals winter ''winter''))
        \<longleftrightarrow> truthy (el_file snow) \<and> spec_active empty_text_input snow)"
  by (simp add: collectThemeAssets_def collect_element_def collect_extra_def winter_def snow_def
        empty_text_input_def isActive_def spec_active_def truthy_def or_default_def Let_def)

text \<open>
  C4, amended. The collected stylesheet and script URLs are, in the order of the
  theme's elements, the asset URLs of exactly those elements that declare a file
  and whose primary setting is active, where active means: the checked state when the
  input found is a checkbox, and always otherwise (an input of another type, whatever
  its value, or no input at all).
\<close>

theorem collectThemeAssets_contribution:
  "cssFiles (collectThemeAssets g w td th)
     = concat (map (\<lambda>ne. if truthy (el_file (snd ne))
                           \<and> (\<forall>i. g (setting (snd ne)) = Some i \<longrightarrow> input_type i = ''checkbox'' \<longrightarrow> checked i)
                         then element_assets ''css'' opt_css g th (snd ne) else []) (theme_elements td))
   \<and> jsFiles (collectThemeAssets g w td th)
     = concat (map (\<lambda>ne. if truthy (el_file (snd ne))
                           \<and> (\<forall>i. g (setting (snd ne)) = Some i \<longrightarrow> input_type i = ''checkbox'' \<longrightarrow> checked i)
                         then element_assets ''js'' opt_js g th (snd ne) else []) (theme_elements td))"
  by (simp add: collectThemeAssets_def theme_elements_def [symmetric]
        fold_collect_element_css fold_collect_element_js isActive_iff)

theorem collectThemeAssets_contribution_witness:
  "cssFiles (collectThemeAssets checked_box globals winter ''winter'')
     = [asset_url ''css'' ''winter'' (Some ''snow.css'')]
   \<and> jsFiles (collectThemeAssets checked_box globals winter ''winter'') = []
   \<and> cssFiles (collectThemeAssets unchecked_box globals winter ''winter'') = []"
  using collectThemeAssets_contribution [of checked_box globals winter "''winter''"]
    collectThemeAssets_contribution [of unchecked_box globals winter "''winter''"]
  by (simp add: theme_elements_def winter_def snow_def checked_box_def unchecked_box_def
        element_assets_def extra_assets_def extras_def truthy_def or_default_def)

subsection \<open>Elements without an input\<close>

lemma collect_extra_input_cong:
  "g (fst kv) = g' (fst kv) \<Longrightarrow> collect_extra g w kv = collect_extra g' w kv"
  by (rule ext) (simp add: collect_extra_def extraActive_def Let_def)

lemma isActive_missing: "g (setting el) = None \<Longrightarrow> isActive g el"
  by (simp add: isActive_def)

text \<open>
  C10. An element of the theme whose primary setting resolves to no input, and which
  declares a file, contributes all its stylesheet and script URLs; and when none of
  its extra options is keyed by the setting, the element is processed exactly as if
  a checked checkbox were found under that identifier.
\<close>

theorem collectThemeAssets_missing_input:
  assumes "(n, el) \<in> set (theme_elements td)"
    and "g (setting el) = None" and "truthy (el_file el)"
  shows "set (element_assets ''css'' opt_css g th el) \<subseteq> set (cssFiles (collectThemeAssets g w td th))
    \<and> set (element_assets ''js'' opt_js g th el) \<subseteq> set (jsFiles (collectThemeAssets g w td th))
    \<and> (setting el \<notin> fst ` set (extras el) \<longrightarrow>
         collect_element g w th (n, el) acc
           = collect_element
               (g(setting el \<mapsto> \<lparr>input_type = ''checkbox'', checked = True, input_value = v\<rparr>))
               w th (n, el) acc)"
proof (intro conjI impI)
  have act: "isActive g el" using assms(2) by (rule isActive_missing)
  show "set (element_assets ''css'' opt_css g th el) \<subseteq> set (cssFiles (collectThemeAssets g w td th))"
    using assms(1,3) act
    by (force simp: collectThemeAssets_def theme_elements_def [symmetric] fold_collect_element_css)
  show "set (element_assets ''js'' opt_js g th el) \<subseteq> set (jsFiles (collectThemeAssets g w td th))"
    using assms(1,3) act
    by (force simp: collectThemeAssets_def theme_elements_def [symmetric] fold_collect_element_js)
next
  let ?g' = "g(setting el \<mapsto> \<lparr>input_type = ''checkbox'', checked = True, input_value = v\<rparr>)"
  assume fresh: "setting el \<notin> fst ` set (extras el)"
  have "fold (collect_extra g w) opts a = fold (collect_extra ?g' w) opts a"
    if "extra_options el = Some opts" for opts a
  proof (rule fold_cong)
    fix kv assume "kv \<in> set opts"
    then have "fst kv \<in> fst ` set (extras el)" using that by (simp add: extras_def)
    then have "fst kv \<noteq> setting el" using fresh by metis
    then show "collect_extra g w kv = collect_extra ?g' w kv"
      by (intro collect_extra_input_cong) simp
  qed simp_all
  then show "collect_element g w th (n, el) acc = collect_element ?g' w th (n, el) acc"
    using assms(2) by (simp add: collect_element_def isActive_def Let_def split: option.splits)
qed

theorem collectThemeAssets_missing_input_witness:
  "asset_url ''css'' ''winter'' (Some ''snow.css'')
      \<in> set (cssFiles (collectThemeAssets no_inputs globals winter ''winter''))
   \<and> collect_element no_inputs globals ''winter'' (''snow'', snow)
         \<lparr>cssFiles = [], jsFiles = [], jsOptions = []\<rparr>
       = collect_element
           (no_inputs(''toggle_snow'' \<mapsto> \<lparr>input_type = ''checkbox'', checked = True, input_value = ''on''\<rparr>))
           globals ''winter'' (''snow'', snow) \<lparr>cssFiles = [], jsFiles = [], jsOptions = []\<rparr>"
  using collectThemeAssets_missing_input [of "''snow''" snow winter no_inputs "''winter''" globals
      "\<lparr>cssFiles = [], jsFiles = [], jsOptions = []\<rparr>" "''on''"]
  by (simp add: theme_elements_def winter_def snow_def no_inputs_def truthy_def
        element_assets_def or_default_def extras_def)

subsection \<open>Extra options of type ignore\<close>

lemma collect_extra_sets:
  "opt_type (snd kv) = Some ''ignore'' \<Longrightarrow>
     map_of (jsOptions (collect_extra g w kv acc)) (fst kv) = Some (w (fst kv))"
  by (simp add: collect_extra_def Let_def update_conv)

lemma collect_extra_keeps:
  assumes "fst kv = k \<longrightarrow> opt_type (snd kv) = Some ''ignore''"
    and "map_of (jsOptions acc) k = Some (w k)"
  shows "map_of (jsOptions (collect_extra g w kv acc)) k = Some (w k)"
  using assms
  by (auto simp: collect_extra_def Let_def update_conv set_from_input_def split: option.splits)

lemma fold_collect_extra_sets:
  assumes "(k, ov) \<in> set opts" "opt_type ov = Some ''ignore''" "only_ignore k opts"
  shows "map_of (jsOptions (fold (collect_extra g w) opts acc)) k = Some (w k)"
proof (rule fold_establishes [where x = "(k, ov)"])
  show "(k, ov) \<in> set opts" by fact
  show "map_of (jsOptions (collect_extra g w (k, ov) a)) k = Some (w k)" for a
    using collect_extra_sets [of "(k, ov)" g w a] assms(2) by simp
  show "map_of (jsOptions (collect_extra g w y a)) k = Some (w k)"
    if "y \<in> set opts" "map_of (jsOptions a) k = Some (w k)" for y a
    using that assms(3) by (intro collect_extra_keeps) (auto simp: only_ignore_def)
qed

lemma fold_collect_extra_keeps:
  assumes "only_ignore k opts" "map_of (jsOptions acc) k = Some (w k)"
  shows "map_of (jsOptions (fold (collect_extra g w) opts acc)) k = Some (w k)"
proof (rule fold_preserves [where Q = "\<lambda>a. map_of (jsOptions a) k = Some (w k)"])
  show "map_of (jsOptions acc) k = Some (w k)" by fact
  show "map_of (jsOptions (collect_extra g w y a)) k = Some (w k)"
    if "y \<in> set opts" "map_of (jsOptions a) k = Some (w k)" for y a
    using that assms(1) by (intro collect_extra_keeps) (auto simp: only_ignore_def)
qed

lemma collect_element_keeps:
  assumes "only_ignore k (extras el)" "map_of (jsOptions acc) k = Some (w k)"
  shows "map_of (jsOptions (collect_element g w th (n, el) acc)) k = Some (w k)"
  using assms
  by (auto simp: collect_element_def Let_def extras_def intro!: fold_collect_extra_keeps
        split: option.splits)

lemma collect_element_sets:
  assumes "isActive g el" "truthy (el_file el)" "(k, ov) \<in> set (extras el)"
    "opt_type ov = Some ''ignore''" "only_ignore k (extras el)"
  shows "map_of (jsOptions (collect_element g w th (n, el) acc)) k = Some (w k)"
  using assms
  by (auto simp: collect_element_def Let_def extras_def intro!: fold_collect_extra_sets
        split: option.splits)

lemma fold_collect_element_sets:
  assumes "(n, el) \<in> set es"
    and "isActive g el" and "truthy (el_file el)"
    and "(k, ov) \<in> set (extras el)" and "opt_type ov = Some ''ignore''"
    and "\<forall>ne \<in> set es. only_ignore k (extras (snd ne))"
  shows "map_of (jsOptions (fold (collect_element g w th) es acc)) k = Some (w k)"
proof (rule fold_establishes [where x = "(n, el)"])
  show "(n, el) \<in> set es" by fact
  show "map_of (jsOptions (collect_element g w th (n, el) a)) k = Some (w k)" for a
    using assms by (intro collect_element_sets) auto
  show "map_of (jsOptions (collect_element g w th y a)) k = Some (w k)"
    if "y \<in> set es" "map_of (jsOptions a) k = Some (w k)" for y a
  proof (cases y)
    case (Pair m e)
    with that assms(6) have "only_ignore k (extras e)" by auto
    then show ?thesis using that(2) Pair by (simp add: collect_element_keeps)
  qed
qed

lemma collect_element_skipped:
  "\<not> isActive g (snd ne) \<or> \<not> truthy (el_file (snd ne)) \<Longrightarrow> collect_element g w th ne acc = acc"
  by (auto simp: collect_element_def Let_def)

lemma fold_collect_element_filter:
  "fold (collect_element g w th) es acc
     = fold (collect_element g w th)
         (filter (\<lambda>ne. isActive g (snd ne) \<and> truthy (el_file (snd ne))) es) acc"
proof (induction es arbitrary: acc)
  case Nil
  show ?case by simp
next
  case (Cons e es)
  show ?case
  proof (cases "isActive g (snd e) \<and> truthy (el_file (snd e))")
    case True
    then show ?thesis by (simp add: Cons.IH)
  next
    case False
    then have "collect_element g w th e acc = acc"
      by (intro collect_element_skipped) auto
    with False show ?thesis by (simp add: Cons.IH)
  qed
qed

text \<open>
  C5, as the specification states it, fails in three ways. When the parent element's
  checkbox is not checked, or when the parent element declares no file, the loop body
  returns before the extra options are looked at, and the key of an option of type
  \<^verbatim>\<open>ignore\<close> stays unset. And when a later element has an option of type
  \<^verbatim>\<open>normal\<close> under the same key, with a value in its input, that value replaces the
  one taken from the global object.
\<close>

theorem collectThemeAssets_ignore_inactive_counterexample:
  "map_of (jsOptions (collectThemeAssets unchecked_box globals winter ''winter'')) ''snow_density''
     \<noteq> Some (globals ''snow_density'')
   \<and> map_of (jsOptions (collectThemeAssets checked_box globals
                 \<lparr>elements = Some [(''snow'', fileless)]\<rparr> ''winter'')) ''snow_density''
     \<noteq> Some (globals ''snow_density'')
   \<and> map_of (jsOptions (collectThemeAssets density_input globals stormy ''winter'')) ''snow_density''
     \<noteq> Some (globals ''snow_density'')"
proof (intro conjI)
  show "map_of (jsOptions (collectThemeAssets unchecked_box globals winter ''winter'')) ''snow_density''
     \<noteq> Some (globals ''snow_density'')"
    by (simp add: collectThemeAssets_def collect_element_def winter_def snow_def
        unchecked_box_def isActive_def Let_def)
  show "map_of (jsOptions (collectThemeAssets checked_box globals
                 \<lparr>elements = Some [(''snow'', fileless)]\<rparr> ''winter'')) ''snow_density''
     \<noteq> Some (globals ''snow_density'')"
    by (simp add: collectThemeAssets_def collect_element_def fileless_def truthy_def Let_def)
  show "map_of (jsOptions (collectThemeAssets density_input globals stormy ''winter'')) ''snow_density''
     \<noteq> Some (globals ''snow_density'')"
    by (simp add: collectThemeAssets_def collect_element_def collect_extra_def stormy_def
        snow_def wind_def density_input_def isActive_def extraActive_def truthy_def
        or_default_def push_truthy_def set_from_input_def globals_def Let_def)
qed

text \<open>
  C5, amended. When an element of the theme is active and declares a file, an extra
  option of type \<^verbatim>\<open>ignore\<close> under the key \<open>k\<close> of that element makes
  \<^verbatim>\<open>jsOptions[k]\<close> the value of the global object under \<open>k\<close>, whatever the state
  of the input named \<open>k\<close>, provided every extra option of the theme stored under
  \<open>k\<close> is of type \<^verbatim>\<open>ignore\<close>. An element that is not active, or declares no
  file, is passed over whole: the loop body leaves the three accumulators as they
  are, so none of its extra options is processed, and the result is that of the
  theme without such elements.
\<close>

theorem collectThemeAssets_ignore_option:
  "((n, el) \<in> set (theme_elements td) \<and> isActive g el \<and> truthy (el_file el)
      \<and> (k, ov) \<in> set (extras el) \<and> opt_type ov = Some ''ignore''
      \<and> (\<forall>ne \<in> set (theme_elements td). only_ignore k (extras (snd ne)))
     \<longrightarrow> map_of (jsOptions (collectThemeAssets g w td th)) k = Some (w k))
   \<and> (\<not> isActive g el' \<or> \<not> truthy (el_file el')
     \<longrightarrow> collect_element g w th (n', el') acc = acc)
   \<and> collectThemeAssets g w td th
     = collectThemeAssets g w
         \<lparr>elements = Some (filter (\<lambda>ne. isActive g (snd ne) \<and> truthy (el_file (snd ne)))
                             (theme_elements td))\<rparr> th"
proof (intro conjI impI)
  assume a: "(n, el) \<in> set (theme_elements td) \<and> isActive g el \<and> truthy (el_file el)
      \<and> (k, ov) \<in> set (extras el) \<and> opt_type ov = Some ''ignore''
      \<and> (\<forall>ne \<in> set (theme_elements td). only_ignore k (extras (snd ne)))"
  show "map_of (jsOptions (collectThemeAssets g w td th)) k = Some (w k)"
    unfolding collectThemeAssets_def theme_elements_def [symmetric]
    using a by (intro fold_collect_element_sets [of n el _ g k ov]) auto
next
  assume "\<not> isActive g el' \<or> \<not> truthy (el_file el')"
  then show "collect_element g w th (n', el') acc = acc"
    by (intro collect_element_skipped) simp
next
  show "collectThemeAssets g w td th
     = collectThemeAssets g w
         \<lparr>elements = Some (filter (\<lambda>ne. isActive g (snd ne) \<and> truthy (el_file (snd ne)))
                             (theme_elements td))\<rparr> th"
  proof -
    have kept: "theme_elements \<lparr>elements = Some es\<rparr> = es" for es
      by (simp add: theme_elements_def)
    have "collectThemeAssets g w x th
        = fold (collect_element g w th) (theme_elements x)
            \<lparr>cssFiles = [], jsFiles = [], jsOptions = []\<rparr>" for x
      by (simp add: collectThemeAssets_def theme_elements_def)
    then show ?thesis
      using fold_collect_element_filter [of g w th "theme_elements td"] by (simp add: kept)
  qed
qed

theorem collectThemeAssets_ignore_option_witness:
  "map_of (jsOptions (collectThemeAssets no_inputs globals winter ''winter'')) ''snow_density''
     = Some (JNumber 40)
   \<and> collect_element unchecked_box globals ''winter'' (''snow'', snow)
        \<lparr>cssFiles = [], jsFiles = [], jsOptions = []\<rparr>
     = \<lparr>cssFiles = [], jsFiles = [], jsOptions = []\<rparr>
   \<and> collect_element checked_box globals ''winter'' (''snow'', fileless)
        \<lparr>cssFiles = [], jsFiles = [], jsOptions = []\<rparr>
     = \<lparr>cssFiles = [], jsFiles = [], jsOptions = []\<rparr>"
  using collectThemeAssets_ignore_option [where n = "''snow''" and el = snow and td = winter
      and g = no_inputs and k = "''snow_density''"
      and ov = "\<lparr>opt_type = Some ''ignore'', opt_css = None, opt_js = None\<rparr>"
      and w = globals and th = "''winter''" and el' = snow and n' = "''snow''"
      and acc = "\<lparr>cssFiles = [], jsFiles = [], jsOptions = []\<rparr>"]
    collectThemeAssets_ignore_option [where n = "''snow''" and el = snow and td = winter
      and g = unchecked_box and k = "''snow_density''"
      and ov = "\<lparr>opt_type = Some ''ignore'', opt_css = None, opt_js = None\<rparr>"
      and w = globals and th = "''winter''" and el' = snow and n' = "''snow''"
      and acc = "\<lparr>cssFiles = [], jsFiles = [], jsOptions = []\<rparr>"]
    collectThemeAssets_ignore_option [where n = "''snow''" and el = snow and td = winter
      and g = checked_box and k = "''snow_density''"
      and ov = "\<lparr>opt_type = Some ''ignore'', opt_css = None, opt_js = None\<rparr>"
      and w = globals and th = "''winter''" and el' = fileless and n' = "''snow''"
      and acc = "\<lparr>cssFiles = [], jsFiles = [], jsOptions = []\<rparr>"]
  by (simp add: theme_elements_def winter_def snow_def fileless_def extras_def isActive_def
        no_inputs_def unchecked_box_def checked_box_def truthy_def only_ignore_def globals_def)

section \<open>Script injection\<close>

lemma set_uniqueJs [simp]: "set (uniqueJs xs) = set xs"
  by (induction xs rule: uniqueJs.induct) auto

lemma distinct_uniqueJs [simp]: "distinct (uniqueJs xs)"
  by (induction xs rule: uniqueJs.induct) auto

lemma filter_neq_id: "a \<notin> set xs \<Longrightarrow> filter (\<lambda>y. y \<noteq> a) xs = xs"
  by (induction xs) auto

lemma uniqueJs_distinct: "distinct xs \<Longrightarrow> uniqueJs xs = xs"
  by (induction xs) (simp_all add: filter_neq_id)

lemma readyState_load_script [simp]:
  "readyState (inj_doc (load_script f th src st)) = readyState (inj_doc st)"
  by (simp add: load_script_def appendChild_body_def dispatchEvent_def console_error_def Let_def
        split: fetch_outcome.splits)

lemma body_fold_load_script:
  "body (inj_doc (fold (load_script f th) srcs st))
     = body (inj_doc st) @ map (\<lambda>c. inline_script c th) (fetched_code f srcs)"
proof (induction srcs arbitrary: st)
  case Nil
  show ?case by (simp add: fetched_code_def)
next
  case (Cons s srcs)
  have "body (inj_doc (load_script f th s st))
          = body (inj_doc st) @ map (\<lambda>c. inline_script c th) (fetched_code f [s])"
    by (simp add: load_script_def appendChild_body_def dispatchEvent_def console_error_def
          fetched_code_def Let_def split: fetch_outcome.splits)
  moreover have "fetched_code f (s # srcs) = fetched_code f [s] @ fetched_code f srcs"
    by (simp add: fetched_code_def)
  ultimately show ?case by (simp add: Cons.IH)
qed

lemma logged_append [simp]: "logged (t @ u) = logged t @ logged u"
  by (simp add: logged_def)

lemma logged_fold_load_script:
  "logged (inj_trace (fold (load_script f th) srcs st))
     = logged (inj_trace st) @ fetch_errors f srcs"
proof (induction srcs arbitrary: st)
  case Nil
  show ?case by (simp add: fetch_errors_def)
next
  case (Cons s srcs)
  have "logged (inj_trace (load_script f th s st))
          = logged (inj_trace st) @ fetch_errors f [s]"
    by (simp add: load_script_def appendChild_body_def dispatchEvent_def console_error_def
          fetch_errors_def logged_def Let_def split: fetch_outcome.splits)
  moreover have "fetch_errors f (s # srcs) = fetch_errors f [s] @ fetch_errors f srcs"
    by (simp add: fetch_errors_def)
  ultimately show ?case by (simp add: Cons.IH)
qed

lemma logged_inject_options [simp]: "logged (inj_trace (inject_options sfy doc th opts)) = []"
  by (simp add: inject_options_def appendChild_body_def logged_def Let_def)

lemma settled_all:
  assumes "distinct order" "set order = set js"
  shows "filter (\<lambda>src. src \<in> set js) (uniqueJs order) = order"
proof -
  have "filter (\<lambda>src. src \<in> set order) order = order" by simp
  then show ?thesis using assms by (simp add: uniqueJs_distinct)
qed

lemma promise_all_settled:
  "promise_all (map (\<lambda>src. if src \<in> set js then load_promise f src else Pending) (uniqueJs js))
     = Fulfilled"
  by (auto simp: promise_all_def load_promise_def split: fetch_outcome.splits if_splits)

text \<open>
  C8. When every fetch settles, in whatever order, and some fail: the call is
  fulfilled; the body has gained, after the options script, exactly the inline
  scripts of the fetches that succeeded; and the console holds one error for each
  fetch that failed.
\<close>

theorem injectJSFilesAsync_partial_failure:
  assumes "distinct order" and "set order = set js"
  shows "fst (injectJSFilesAsync sfy fetch order doc js th opts) = Fulfilled
    \<and> body (inj_doc (snd (injectJSFilesAsync sfy fetch order doc js th opts)))
        = body (inj_doc (inject_options sfy doc th opts))
          @ map (\<lambda>code. inline_script code th) (fetched_code fetch order)
    \<and> logged (inj_trace (snd (injectJSFilesAsync sfy fetch order doc js th opts)))
        = fetch_errors fetch order"
proof -
  have settled: "filter (\<lambda>src. src \<in> set (uniqueJs js)) (uniqueJs order) = order"
    using settled_all [OF assms] by simp
  have run: "injectJSFilesAsync sfy fetch order doc js th opts
      = (promise_all (map (\<lambda>src. if src \<in> set order then load_promise fetch src else Pending)
                       (uniqueJs js)),
         fold (load_script fetch th) order (inject_options sfy doc th opts))"
    unfolding injectJSFilesAsync_def Let_def settled ..
  have "promise_all (map (\<lambda>src. if src \<in> set order then load_promise fetch src else Pending)
                       (uniqueJs js)) = Fulfilled"
    unfolding assms(2) by (rule promise_all_settled)
  then show ?thesis
    unfolding run by (simp add: body_fold_load_script logged_fold_load_script)
qed

theorem injectJSFilesAsync_partial_failure_witness:
  "fst (injectJSFilesAsync no_stringify a_fails [''b.js'', ''a.js''] loaded_doc [''a.js'', ''b.js''] ''winter'' []) = Fulfilled
   \<and> body (inj_doc (snd (injectJSFilesAsync no_stringify a_fails [''b.js'', ''a.js''] loaded_doc [''a.js'', ''b.js''] ''winter'' [])))
        = [inline_script ''a + 1;'' ''winter'']
   \<and> logged (inj_trace (snd (injectJSFilesAsync no_stringify a_fails [''b.js'', ''a.js''] loaded_doc [''a.js'', ''b.js''] ''winter'' [])))
        = [''TypeError: Failed to fetch'']"
  using injectJSFilesAsync_partial_failure [of "[''b.js'', ''a.js'']" "[''a.js'', ''b.js'']"
      no_stringify a_fails loaded_doc "''winter''" "[]"]
  by (simp add: inject_options_def generateOptionsScript_def loaded_doc_def fetched_code_def
        fetch_errors_def a_fails_def insert_commute)

text \<open>
  C1. The scripts reach the body in the order in which their fetches settle. With
  the list \<^verbatim>\<open>[a.js, b.js, a.js]\<close>, whose distinct URLs are \<^verbatim>\<open>a.js, b.js\<close>, and
  the fetch of \<^verbatim>\<open>b.js\<close> settling first, the script of \<^verbatim>\<open>b.js\<close> is appended
  before the script of \<^verbatim>\<open>a.js\<close>.
\<close>

theorem injectJSFilesAsync_completion_order:
  "uniqueJs [''a.js'', ''b.js'', ''a.js''] = [''a.js'', ''b.js'']
   \<and> fst (injectJSFilesAsync no_stringify both_fetched [''b.js'', ''a.js''] loaded_doc
          [''a.js'', ''b.js'', ''a.js''] ''winter'' []) = Fulfilled
   \<and> body (inj_doc (snd (injectJSFilesAsync no_stringify both_fetched [''b.js'', ''a.js''] loaded_doc
          [''a.js'', ''b.js'', ''a.js''] ''winter'' [])))
     = [inline_script ''a + 1;'' ''winter'', inline_script ''var a = 1;'' ''winter'']"
  by (simp add: injectJSFilesAsync_def inject_options_def generateOptionsScript_def
        loaded_doc_def both_fetched_def load_script_def appendChild_body_def dispatchEvent_def
        promise_all_def load_promise_def Let_def)

lemma trace_fold_load_script:
  assumes "readyState (inj_doc st) = ''complete'' \<or> readyState (inj_doc st) = ''interactive''"
  shows "inj_trace (fold (load_script f th) srcs st)
           = inj_trace st @ concat (map (script_effects f th) srcs)"
  using assms
proof (induction srcs arbitrary: st)
  case Nil
  show ?case by simp
next
  case (Cons s srcs)
  have "inj_trace (load_script f th s st) = inj_trace st @ script_effects f th s"
    using Cons.prems
    by (auto simp: load_script_def appendChild_body_def dispatchEvent_def console_error_def
          script_effects_def Let_def split: fetch_outcome.splits)
  moreover have "readyState (inj_doc (load_script f th s st)) = ''complete''
      \<or> readyState (inj_doc (load_script f th s st)) = ''interactive''"
    using Cons.prems by simp
  ultimately show ?case using Cons.IH [of "load_script f th s st"] by simp
qed

lemma signalled_script_effects:
  "signalled_after_each_append (concat (map (script_effects f th) srcs))"
  by (induction srcs) (simp_all add: script_effects_def split: fetch_outcome.splits)

lemma readyState_inject_options [simp]:
  "readyState (inj_doc (inject_options sfy doc th opts)) = readyState doc"
  by (simp add: inject_options_def appendChild_body_def Let_def)

text \<open>
  C9, as the specification states it, fails: with two scripts fetched, the second one
  is appended after the signal that followed the first.
\<close>

theorem injectJSFilesAsync_append_after_signal_counterexample:
  "\<not> no_append_after_dispatch (inj_trace (snd (injectJSFilesAsync no_stringify both_fetched
        [''a.js'', ''b.js''] loaded_doc [''a.js'', ''b.js''] ''winter'' [])))"
  by (simp add: injectJSFilesAsync_def inject_options_def generateOptionsScript_def
        loaded_doc_def both_fetched_def load_script_def appendChild_body_def dispatchEvent_def
        appended_def Let_def)

text \<open>
  C9, amended. When the document is \<^verbatim>\<open>complete\<close> or \<^verbatim>\<open>interactive\<close>, every
  fetched script appended by a run is followed at once by the dispatch of
  \<^verbatim>\<open>DOMContentLoaded\<close> on the document: the signal is sent once per script, so the
  last appended script is followed by a signal too.
\<close>

theorem injectJSFilesAsync_signal_after_each_script:
  assumes "readyState doc = ''complete'' \<or> readyState doc = ''interactive''"
  shows "\<exists>t. inj_trace (snd (injectJSFilesAsync sfy fetch order doc js th opts))
               = inj_trace (inject_options sfy doc th opts) @ t
           \<and> signalled_after_each_append t"
  using assms
  by (auto simp: injectJSFilesAsync_def Let_def trace_fold_load_script
        intro: signalled_script_effects)

theorem injectJSFilesAsync_signal_after_each_script_witness:
  "inj_trace (snd (injectJSFilesAsync no_stringify both_fetched
        [''a.js'', ''b.js''] loaded_doc [''a.js'', ''b.js''] ''winter'' []))
    = [AppendChild (inline_script ''var a = 1;'' ''winter''), DispatchEvent ''DOMContentLoaded'',
       AppendChild (inline_script ''a + 1;'' ''winter''), DispatchEvent ''DOMContentLoaded'']
   \<and> (\<exists>t. inj_trace (snd (injectJSFilesAsync no_stringify both_fetched
        [''a.js'', ''b.js''] loaded_doc [''a.js'', ''b.js''] ''winter'' [])) = [] @ t
         \<and> signalled_after_each_append t)"
  using injectJSFilesAsync_signal_after_each_script [of loaded_doc no_stringify both_fetched
      "[''a.js'', ''b.js'']" "[''a.js'', ''b.js'']" "''winter''" "[]"]
  by (simp add: injectJSFilesAsync_def inject_options_def generateOptionsScript_def
        loaded_doc_def both_fetched_def load_script_def appendChild_body_def dispatchEvent_def
        Let_def)

section \<open>Layout\<close>

lemma DEVICE_CONFIG_baseWidth: "DEVICE_CONFIG key = Some config \<Longrightarrow> baseWidth config \<noteq> 0"
  by (auto simp: DEVICE_CONFIG_def split: if_splits)

lemma place_fields:
  "style_transform (place r config st)
     = Some (Transform (rect_left r) (rect_top r) (rect_width r / baseWidth config))
   \<and> style_width (place r config st) = Some (Px (baseWidth config))
   \<and> style_height (place r config st)
     = assign_length (div_px (rect_height r) (rect_width r / baseWidth config)) (style_height st)"
  by (simp add: place_def Let_def)

lemma place_height:
  assumes "baseWidth config \<noteq> 0"
  shows "style_height (place r config st)
     = (if rect_width r = 0 then style_height st
        else Some (Px (rect_height r / (rect_width r / baseWidth config))))"
  using assms by (simp add: place_fields div_px_def assign_length_def)

text \<open>
  C6, as the specification states it, fails: while the screen region has no width the
  scale is 0, the height written is no length and is dropped, and the frame keeps the
  height it had. Two pages with the same region and the same profile, one carrying the
  height 1000 from an earlier layout and one the height 700, end with different
  heights.
\<close>

theorem positionIframe_zero_width_counterexample:
  "preview_layout (positionIframe (collapsed_page 1000))
     \<noteq> preview_layout (positionIframe (collapsed_page 700))"
  by (simp add: collapsed_page_def admin_page_def positionIframe_def DEVICE_CONFIG_def
        preview_layout_def place_def div_px_def assign_length_def Let_def no_style_def)

text \<open>
  C6, amended. When \<open>positionIframe\<close> goes through (frame present and initialised,
  overlay present, device known, screen region found), the scale is the width of the
  screen region divided by the base width of the current profile and the frame is as
  wide as the base width; the overlay receives the same transform and the same width
  as the frame. When the region has a width, frame and overlay are both as high as
  the height of the region divided by the scale. When the region has no width, the
  frame and the overlay each keep the height they had.
\<close>

theorem positionIframe_layout:
  assumes "iframe p = Some f" and "isInitialized p" and "overlay p = Some ov"
    and "DEVICE_CONFIG (currentDevice p) = Some config"
    and "screen_rects p (screen config) = Some r"
  shows "\<exists>f' ov'. iframe (positionIframe p) = Some f' \<and> overlay (positionIframe p) = Some ov'
    \<and> style_transform (frame_style f')
        = Some (Transform (rect_left r) (rect_top r) (rect_width r / baseWidth config))
    \<and> style_width (frame_style f') = Some (Px (baseWidth config))
    \<and> style_transform ov' = style_transform (frame_style f')
    \<and> style_width ov' = style_width (frame_style f')
    \<and> (rect_width r \<noteq> 0 \<longrightarrow>
         style_height (frame_style f')
           = Some (Px (rect_height r / (rect_width r / baseWidth config)))
         \<and> style_height ov' = style_height (frame_style f'))
    \<and> (rect_width r = 0 \<longrightarrow>
         style_height (frame_style f') = style_height (frame_style f)
         \<and> style_height ov' = style_height ov)"
proof -
  have bw: "baseWidth config \<noteq> 0" using assms(4) by (rule DEVICE_CONFIG_baseWidth)
  have run: "positionIframe p
      = p\<lparr>iframeContainer := map_option (\<lambda>c. c\<lparr>display := ''block''\<rparr>) (iframeContainer p),
          iframe := Some (f\<lparr>frame_style := place r config (frame_style f)\<rparr>),
          overlay := Some (place r config ov)\<rparr>"
    using assms by (simp add: positionIframe_def)
  show ?thesis unfolding run by (simp add: place_fields [THEN conjunct1]
      place_fields [THEN conjunct2, THEN conjunct1] place_height [OF bw])
qed

theorem positionIframe_layout_witness:
  "preview_layout (positionIframe (admin_page\<lparr>currentDevice := ''tel''\<rparr>))
     = Some (Some (13 / 20), Some (Px 500), Some (Px 1000))
   \<and> preview_layout (positionIframe (collapsed_page 1000))
     = Some (Some 0, Some (Px 500), Some (Px 1000))"
  using positionIframe_layout [of "admin_page\<lparr>currentDevice := ''tel''\<rparr>"
      "\<lparr>frame_src = opacPreview, frame_style = no_style\<rparr>"
      "no_style\<lparr>display := ''none'', pointerEvents := ''none''\<rparr>"
      "\<lparr>baseWidth = 500, container = ''.iphone'', screen = ''.iphone .screenMobile''\<rparr>"
      "\<lparr>rect_left = 40, rect_top = 120, rect_width = 325, rect_height = 650\<rparr>"]
    positionIframe_layout [of "collapsed_page 1000"
      "\<lparr>frame_src = opacPreview,
         frame_style = no_style\<lparr>style_width := Some (Px 500), style_height := Some (Px 1000)\<rparr>\<rparr>"
      "no_style\<lparr>display := ''none'', pointerEvents := ''none'',
         style_width := Some (Px 500), style_height := Some (Px 1000)\<rparr>"
      "\<lparr>baseWidth = 500, container = ''.iphone'', screen = ''.iphone .screenMobile''\<rparr>"
      "\<lparr>rect_left = 0, rect_top = 0, rect_width = 0, rect_height = 0\<rparr>"]
  by (auto simp: admin_page_def collapsed_page_def DEVICE_CONFIG_def preview_layout_def)

lemma switch_to_phone:
  "switchToDevice_onload (switchToDevice ''tel'' admin_page)
   = admin_page\<lparr>currentDevice := ''tel'',
       iframeContainer := Some (no_style\<lparr>display := ''block''\<rparr>),
       iframe := Some \<lparr>frame_src = opacPreview,
         frame_style = no_style\<lparr>style_transform := Some (Transform 40 120 (13 / 20)),
           style_width := Some (Px 500), style_height := Some (Px 1000)\<rparr>\<rparr>,
       overlay := Some (no_style\<lparr>display := ''none'', pointerEvents := ''none'',
           style_transform := Some (Transform 40 120 (13 / 20)),
           style_width := Some (Px 500), style_height := Some (Px 1000)\<rparr>),
       device_containers := set_display ''.iphone'' ''block'' (hide_devices (device_containers admin_page))\<rparr>"
  by (simp add: switchToDevice_onload_def switchToDevice_def DEVICE_CONFIG_def admin_page_def
        showLoadingOverlay_def positionIframe_def hideLoadingOverlay_def place_def div_px_def assign_length_def
        Let_def no_style_def)

text \<open>
  C7, as the specification states it, fails: after the switch to the phone the scale
  is taken against the base width of the phone, and a region 325 px wide gives
  325 / 500, not 0.25.
\<close>

theorem switchToDevice_phone_layout_counterexample:
  "preview_layout (switchToDevice_onload (switchToDevice ''tel'' admin_page))
     \<noteq> Some (Some (1 / 4), Some (Px 500), Some (Px 2600))"
  by (simp add: switch_to_phone preview_layout_def no_style_def)

text \<open>
  C7, amended. After the switch from the desktop to the phone, with the screen region
  of the phone 325 px wide and 650 px high, the layout has the scale 0.65, the width
  500 and the height 1000.
\<close>

theorem switchToDevice_phone_layout:
  "currentDevice (switchToDevice ''tel'' admin_page) = ''tel''
   \<and> preview_layout (switchToDevice_onload (switchToDevice ''tel'' admin_page))
     = Some (Some (13 / 20), Some (Px 500), Some (Px 1000))"
  by (simp add: switch_to_phone preview_layout_def no_style_def)
     (simp add: switchToDevice_def DEVICE_CONFIG_def admin_page_def showLoadingOverlay_def Let_def)

section \<open>Refreshing the preview\<close>

text \<open>
  C3. A refresh asked for while no element has the id \<^verbatim>\<open>theme-preview\<close> returns
  without an exception, but with the overlay still displayed and both buttons still
  disabled: the first early return of \<open>updatePreview\<close> undoes neither.
\<close>

theorem updatePreview_missing_surface:
  "fst (updatePreview no_surface raw_themes ''winter'' admin_page) = Returned
   \<and> map_option display (overlay (fst (snd (updatePreview no_surface raw_themes ''winter'' admin_page))))
       = Some ''flex''
   \<and> map_option disabled (preview_button (fst (snd (updatePreview no_surface raw_themes ''winter'' admin_page))))
       = Some True
   \<and> map_option disabled (create_button (fst (snd (updatePreview no_surface raw_themes ''winter'' admin_page))))
       = Some True"
  by (simp add: updatePreview_def no_surface_def admin_page_def showLoadingOverlay_def
        toggleButtons_def toggleButton_def Let_def)

end
